theory Spec2Isabelle
  imports Main
begin

section \<open>Values, documents and exceptions\<close>

text \<open>
  Documents read back from the store are Python dicts whose values are not validated
  against the schemas.  The values modelled are null, booleans, integers, text, arrays
  and dicts; doubles are left out.  Text is held as its UTF-8 bytes.
\<close>

datatype pyval =
    PNone
  | PBool bool
  | PInt int
  | PStr string
  | PList "pyval list"
  | PDict "(string \<times> pyval) list"

text \<open>Python truth value, as used by \<^verbatim>\<open>x or 0\<close> and \<^verbatim>\<open>if x\<close>.\<close>

fun truthy :: "pyval \<Rightarrow> bool" where
  "truthy PNone = False"
| "truthy (PBool b) = b"
| "truthy (PInt n) = (n \<noteq> 0)"
| "truthy (PStr s) = (s \<noteq> [])"
| "truthy (PList xs) = (xs \<noteq> [])"
| "truthy (PDict kvs) = (kvs \<noteq> [])"

definition py_or :: "pyval \<Rightarrow> pyval \<Rightarrow> pyval" where
  "py_or a b = (if truthy a then a else b)"

text \<open>
  Exceptions.  \<open>HTTPException\<close> carries status code and detail.  \<open>StoreError\<close> and
  \<open>External\<close> carry the text that \<^verbatim>\<open>str(e)\<close> gives; they stand for any
  \<^verbatim>\<open>Exception\<close> raised by the document store and by the other collaborators
  (payment provider, spreadsheet client, imports).
\<close>

datatype exn =
    HTTPException nat string
  | ValidationError
  | ValueError
  | TypeError
  | KeyError
  | JSONDecodeError
  | StoreError string
  | External string

text \<open>
  The built-in \<^verbatim>\<open>int(v)\<close>.  Parsing of text is Python's own and is taken as the
  parameter \<open>str_to_int\<close> (\<open>None\<close> when the text is no integer literal).
\<close>

fun py_int :: "(string \<Rightarrow> int option) \<Rightarrow> pyval \<Rightarrow> exn + int" where
  "py_int str_to_int PNone = Inl TypeError"
| "py_int str_to_int (PBool b) = Inr (if b then 1 else 0)"
| "py_int str_to_int (PInt n) = Inr n"
| "py_int str_to_int (PStr s) =
     (case str_to_int s of None \<Rightarrow> Inl ValueError | Some n \<Rightarrow> Inr n)"
| "py_int str_to_int (PList xs) = Inl TypeError"
| "py_int str_to_int (PDict kvs) = Inl TypeError"

type_synonym fields = "(string \<times> pyval) list"

text \<open>
  A stored document: the identifier the store assigned, rendered as text
  (\<^verbatim>\<open>str(p.get("_id"))\<close>), and the remaining keys in order.
\<close>

record document =
  doc_id :: string
  doc_fields :: fields

text \<open>\<^verbatim>\<open>d.get(key, default)\<close>; \<^verbatim>\<open>d.get(key)\<close> is the default \<open>PNone\<close>.\<close>

definition py_get :: "document \<Rightarrow> string \<Rightarrow> pyval \<Rightarrow> pyval" where
  "py_get d k dflt = (case map_of (doc_fields d) k of None \<Rightarrow> dflt | Some v \<Rightarrow> v)"

section \<open>Schemas\<close>

record lead =
  name :: string
  email :: string
  phone :: "string option"
  interest :: "string option"
  source :: "string option"
  lead_notes :: "string option"

record product =
  title :: string
  description :: "string option"
  price_cents :: int
  currency :: string
  image :: "string option"
  in_stock :: bool
  tags :: "string list option"

record order =
  order_product_id :: string
  order_quantity :: int
  amount_total_cents :: int
  order_currency :: string
  status :: string
  order_customer_email :: "string option"
  checkout_session_id :: "string option"
  created_at :: "int option"
  updated_at :: "int option"

text \<open>
  The \<^verbatim>\<open>Order(...)\<close> constructor as the checkout calls it: five fields given, the
  others at their defaults, and the \<^verbatim>\<open>ge\<close> constraints of the fields checked.
\<close>

definition OrderSchema ::
  "string \<Rightarrow> int \<Rightarrow> int \<Rightarrow> string option \<Rightarrow> string \<Rightarrow> exn + order" where
  "OrderSchema pid qty amount mail st =
     (if qty \<ge> 1 \<and> amount \<ge> 0
      then Inr \<lparr>order_product_id = pid, order_quantity = qty, amount_total_cents = amount,
                order_currency = ''usd'', status = st, order_customer_email = mail,
                checkout_session_id = None, created_at = None, updated_at = None\<rparr>
      else Inl ValidationError)"

definition opt_str :: "string option \<Rightarrow> pyval" where
  "opt_str x = (case x of None \<Rightarrow> PNone | Some s \<Rightarrow> PStr s)"

definition opt_int :: "int option \<Rightarrow> pyval" where
  "opt_int x = (case x of None \<Rightarrow> PNone | Some n \<Rightarrow> PInt n)"

text \<open>\<^verbatim>\<open>model_dump()\<close> of the three schemas: the fields in declaration order.\<close>

definition dump_order :: "order \<Rightarrow> fields" where
  "dump_order r =
     [(''product_id'', PStr (order_product_id r)),
      (''quantity'', PInt (order_quantity r)),
      (''amount_total_cents'', PInt (amount_total_cents r)),
      (''currency'', PStr (order_currency r)),
      (''status'', PStr (status r)),
      (''customer_email'', opt_str (order_customer_email r)),
      (''checkout_session_id'', opt_str (checkout_session_id r)),
      (''created_at'', opt_int (created_at r)),
      (''updated_at'', opt_int (updated_at r))]"

definition dump_product :: "product \<Rightarrow> fields" where
  "dump_product p =
     [(''title'', PStr (title p)),
      (''description'', opt_str (description p)),
      (''price_cents'', PInt (price_cents p)),
      (''currency'', PStr (currency p)),
      (''image'', opt_str (image p)),
      (''in_stock'', PBool (in_stock p)),
      (''tags'', (case tags p of None \<Rightarrow> PNone | Some ts \<Rightarrow> PList (map PStr ts)))]"

definition dump_lead :: "lead \<Rightarrow> fields" where
  "dump_lead l =
     [(''name'', PStr (name l)),
      (''email'', PStr (email l)),
      (''phone'', opt_str (phone l)),
      (''interest'', opt_str (interest l)),
      (''source'', opt_str (source l)),
      (''notes'', opt_str (lead_notes l))]"

section \<open>Document store\<close>

text \<open>
  Modelled from the spec: the module \<^verbatim>\<open>database\<close> (\<^verbatim>\<open>create_document\<close>,
  \<^verbatim>\<open>get_documents\<close>) is not among the sources.  Section 4.1 of the specification
  gives its contract: \<open>create\<close> persists the record in the named collection and returns
  the identifier, \<open>query\<close> returns the records of the collection (up to the limit), and
  either fails with a store error.  Identifiers are store-assigned opaque strings; here
  the decimal numeral of a counter.  Whether an operation fails is not decided by the
  handlers, so the store carries the outcomes of its coming operations: \<open>Some msg\<close> makes
  the next operation raise an exception with text \<open>msg\<close>, \<open>None\<close> (or an exhausted list)
  lets it succeed.
\<close>

record store =
  colls :: "string \<Rightarrow> document list"
  next_id :: nat
  faults :: "string option list"

fun digits :: "nat \<Rightarrow> string" where
  "digits n =
     (if n < 10 then [char_of (48 + n)]
      else digits (n div 10) @ [char_of (48 + n mod 10)])"

declare digits.simps [simp del]

definition next_fault :: "store \<Rightarrow> string option" where
  "next_fault st = (case faults st of [] \<Rightarrow> None | f # _ \<Rightarrow> f)"

definition consume :: "store \<Rightarrow> store" where
  "consume st = st\<lparr>faults := tl (faults st)\<rparr>"

definition create_document :: "string \<Rightarrow> fields \<Rightarrow> store \<Rightarrow> (string + string) \<times> store" where
  "create_document coll data st =
     (case next_fault st of
        Some msg \<Rightarrow> (Inl msg, consume st)
      | None \<Rightarrow>
          let oid = digits (next_id st);
              d = \<lparr>doc_id = oid, doc_fields = data\<rparr>
          in (Inr oid,
              (consume st)\<lparr>colls := (colls st)(coll := colls st coll @ [d]),
                           next_id := Suc (next_id st)\<rparr>))"

definition get_documents ::
  "string \<Rightarrow> nat option \<Rightarrow> store \<Rightarrow> (string + document list) \<times> store" where
  "get_documents coll limit st =
     (case next_fault st of
        Some msg \<Rightarrow> (Inl msg, consume st)
      | None \<Rightarrow>
          (Inr (case limit of None \<Rightarrow> colls st coll | Some n \<Rightarrow> take n (colls st coll)),
           consume st))"

section \<open>Environment\<close>

text \<open>
  What the handlers reach outside the program: the process environment
  (\<^verbatim>\<open>os.getenv\<close>), Python's integer parser, the payment provider, the spreadsheet
  client with the two parsers in front of it, and the handle \<^verbatim>\<open>db\<close> of the store.
  \<open>stripe_import\<close> is \<open>Some e\<close> when \<^verbatim>\<open>import stripe\<close> raises \<open>e\<close>, and
  \<open>google_import\<close> likewise for the two Google imports;
  \<open>stripe_session_create\<close> is \<^verbatim>\<open>stripe.checkout.Session.create\<close>, returning the
  session's url or raising.  A handle gives its \<^verbatim>\<open>name\<close> attribute and the result of
  \<^verbatim>\<open>list_collection_names()\<close>, each either a value or the text of the exception raised.
\<close>

record stripe_line_item =
  price_currency :: pyval
  product_name :: pyval
  unit_amount :: int
  sli_quantity :: int

record stripe_request =
  api_key :: string
  mode :: string
  stripe_items :: "stripe_line_item list"
  success_url :: string
  cancel_url :: string
  stripe_customer_email :: "string option"

record db_handle =
  db_name :: "string + string option"
  list_collection_names :: "string + string list"

record env =
  getenv :: "string \<Rightarrow> string option"
  str_to_int :: "string \<Rightarrow> int option"
  stripe_import :: "exn option"
  stripe_session_create :: "stripe_request \<Rightarrow> exn + string"
  google_import :: "exn option"
  json_loads :: "string \<Rightarrow> exn + pyval"
  b64decode_utf8 :: "string \<Rightarrow> exn + string"
  sheets_append :: "pyval \<Rightarrow> string \<Rightarrow> string \<Rightarrow> string list \<Rightarrow> exn + string option"
  db :: "db_handle option"

text \<open>\<^verbatim>\<open>os.getenv(key, default)\<close>.\<close>

definition getenv_default :: "env \<Rightarrow> string \<Rightarrow> string \<Rightarrow> string" where
  "getenv_default e k dflt = (case getenv e k of None \<Rightarrow> dflt | Some v \<Rightarrow> v)"

text \<open>Truth value of an optional text: \<^verbatim>\<open>None\<close> and the empty text are false.\<close>

definition set_and_nonempty :: "string option \<Rightarrow> bool" where
  "set_and_nonempty x = (case x of None \<Rightarrow> False | Some s \<Rightarrow> s \<noteq> [])"

section \<open>Seed data\<close>

definition samples :: "product list" where
  "samples =
     [\<lparr>title = ''Citrus Bloom'', description = Some ''Fresh citrus with floral heart.'',
       price_cents = 5900, currency = ''usd'',
       image = Some ''https://images.unsplash.com/photo-1608571424053-c7c3a1e3a1cc?q=80&w=1600&auto=format&fit=crop'',
       in_stock = True, tags = Some [''citrus'', ''daytime'']\<rparr>,
      \<lparr>title = ''Amber Dusk'', description = Some ''Warm amber and vanilla.'',
       price_cents = 7200, currency = ''usd'',
       image = Some ''https://images.unsplash.com/photo-1541643600914-78b084683601?q=80&w=1600&auto=format&fit=crop'',
       in_stock = True, tags = Some [''amber'', ''evening'']\<rparr>,
      \<lparr>title = ''Verdant Mist'', description = Some ''Green notes with a dewy finish.'',
       price_cents = 6400, currency = ''usd'',
       image = Some ''https://images.unsplash.com/photo-1600180758890-6b94519a8ba6?q=80&w=1600&auto=format&fit=crop'',
       in_stock = True, tags = Some [''green'', ''unisex'']\<rparr>]"

text \<open>The insertion loop: a failing insert is passed over.\<close>

fun insert_samples :: "product list \<Rightarrow> store \<Rightarrow> store" where
  "insert_samples [] st = st"
| "insert_samples (s # ss) st =
     insert_samples ss (snd (create_document ''product'' (dump_product s) st))"

definition ensure_sample_products :: "store \<Rightarrow> store" where
  "ensure_sample_products st =
     (case get_documents ''product'' (Some 1) st of
        (Inl msg, st1) \<Rightarrow> st1
      | (Inr existing, st1) \<Rightarrow>
          if existing \<noteq> [] then st1 else insert_samples samples st1)"

section \<open>Routes\<close>

definition root :: string where
  "root = ''Perfume AI Agent Backend Running''"

text \<open>\<^verbatim>\<open>d[k] = v\<close> on the keys of a dict: in place when the key exists, appended otherwise.\<close>

fun dict_set :: "fields \<Rightarrow> string \<Rightarrow> pyval \<Rightarrow> fields" where
  "dict_set [] k v = [(k, v)]"
| "dict_set ((k', v') # kvs) k v =
     (if k' = k then (k, v) # kvs else (k', v') # dict_set kvs k v)"

definition list_products :: "store \<Rightarrow> (exn + fields list) \<times> store" where
  "list_products st =
     (let st1 = ensure_sample_products st in
      case get_documents ''product'' None st1 of
        (Inl msg, st2) \<Rightarrow> (Inl (StoreError msg), st2)
      | (Inr prods, st2) \<Rightarrow>
          (Inr (map (\<lambda>p. dict_set (doc_fields p) ''id'' (PStr (doc_id p))) prods), st2))"

subsection \<open>Checkout\<close>

record checkout_item =
  product_id :: string
  quantity :: int

record checkout_request =
  items :: "checkout_item list"
  customer_email :: "string option"

record checkout_response =
  checkout_url :: string
  order_id :: string
  response_note :: "string option"

record line_item =
  li_name :: pyval
  li_amount :: int
  li_currency :: pyval
  li_quantity :: int

text \<open>The map of products by identifier; a later document replaces an earlier one.\<close>

fun index_products :: "document list \<Rightarrow> (string \<rightharpoonup> document) \<Rightarrow> (string \<rightharpoonup> document)" where
  "index_products [] by_id = by_id"
| "index_products (p # ps) by_id = index_products ps (by_id(doc_id p \<mapsto> p))"

text \<open>\<^verbatim>\<open>int(prod.get("price_cents") or 0)\<close>\<close>

definition unit_price :: "env \<Rightarrow> document \<Rightarrow> exn + int" where
  "unit_price e pdoc = py_int (str_to_int e) (py_or (py_get pdoc ''price_cents'' PNone) (PInt 0))"

text \<open>
  The pricing loop over the cart, with its two accumulators.  A document from the store
  carries its identifier and so is never an empty dict: \<^verbatim>\<open>not prod\<close> holds exactly when
  the lookup gave nothing.
\<close>

fun price_items ::
  "env \<Rightarrow> (string \<rightharpoonup> document) \<Rightarrow> checkout_item list \<Rightarrow> int \<Rightarrow> line_item list
     \<Rightarrow> exn + (int \<times> line_item list)" where
  "price_items e by_id [] amount_total acc = Inr (amount_total, acc)"
| "price_items e by_id (it # its) amount_total acc =
     (case by_id (product_id it) of
        None \<Rightarrow> Inl (HTTPException 404 (''Product not found: '' @ product_id it))
      | Some pdoc \<Rightarrow>
          let qty = max 1 (quantity it) in
          (case unit_price e pdoc of
             Inl err \<Rightarrow> Inl err
           | Inr cents \<Rightarrow>
               price_items e by_id its (amount_total + cents * qty)
                 (acc @ [\<lparr>li_name = py_get pdoc ''title'' PNone, li_amount = cents,
                           li_currency = py_get pdoc ''currency'' (PStr ''usd''),
                           li_quantity = qty\<rparr>])))"

text \<open>The provider's line items, built inside the \<^verbatim>\<open>try\<close> block.\<close>

fun stripe_line_items ::
  "env \<Rightarrow> (string \<rightharpoonup> document) \<Rightarrow> checkout_item list \<Rightarrow> exn + stripe_line_item list" where
  "stripe_line_items e by_id [] = Inr []"
| "stripe_line_items e by_id (it # its) =
     (case by_id (product_id it) of
        None \<Rightarrow> Inl KeyError
      | Some pdoc \<Rightarrow>
          (case unit_price e pdoc of
             Inl err \<Rightarrow> Inl err
           | Inr cents \<Rightarrow>
               (case stripe_line_items e by_id its of
                  Inl err \<Rightarrow> Inl err
                | Inr rest \<Rightarrow>
                    Inr (\<lparr>price_currency = py_get pdoc ''currency'' (PStr ''usd''),
                          product_name = py_get pdoc ''title'' PNone,
                          unit_amount = cents,
                          sli_quantity = max 1 (quantity it)\<rparr> # rest))))"

text \<open>The body of the \<^verbatim>\<open>try\<close> block of the provider branch.\<close>

definition stripe_checkout ::
  "env \<Rightarrow> string \<Rightarrow> (string \<rightharpoonup> document) \<Rightarrow> checkout_request \<Rightarrow> string
     \<Rightarrow> exn + checkout_response" where
  "stripe_checkout e stripe_key by_id payload oid =
     (case stripe_import e of
        Some err \<Rightarrow> Inl err
      | None \<Rightarrow>
          let success = getenv_default e ''CHECKOUT_SUCCESS_URL'' ''https://example.com/success'';
              cancel = getenv_default e ''CHECKOUT_CANCEL_URL'' ''https://example.com/cancel''
          in (case stripe_line_items e by_id (items payload) of
                Inl err \<Rightarrow> Inl err
              | Inr lis \<Rightarrow>
                  (case stripe_session_create e
                          \<lparr>api_key = stripe_key, mode = ''payment'', stripe_items = lis,
                           success_url = success @ ''?order_id='' @ oid,
                           cancel_url = cancel @ ''?order_id='' @ oid,
                           stripe_customer_email = customer_email payload\<rparr> of
                     Inl err \<Rightarrow> Inl err
                   | Inr url \<Rightarrow>
                       Inr \<lparr>checkout_url = url, order_id = oid, response_note = None\<rparr>)))"

definition mock_checkout :: "string \<Rightarrow> checkout_response" where
  "mock_checkout oid =
     \<lparr>checkout_url = ''https://checkout.mock/'' @ oid, order_id = oid,
      response_note = Some ''Stripe not configured; using mock checkout URL. Set STRIPE_SECRET_KEY to enable real payments.''\<rparr>"

text \<open>What follows the creation of the order: the provider if configured, else the mock.\<close>

definition checkout_reply ::
  "env \<Rightarrow> (string \<rightharpoonup> document) \<Rightarrow> checkout_request \<Rightarrow> string \<Rightarrow> checkout_response" where
  "checkout_reply e by_id payload oid =
     (case getenv e ''STRIPE_SECRET_KEY'' of
        None \<Rightarrow> mock_checkout oid
      | Some stripe_key \<Rightarrow>
          if stripe_key = [] then mock_checkout oid
          else (case stripe_checkout e stripe_key by_id payload oid of
                  Inl err \<Rightarrow> mock_checkout oid
                | Inr resp \<Rightarrow> resp))"

definition create_checkout_session ::
  "env \<Rightarrow> checkout_request \<Rightarrow> store \<Rightarrow> (exn + checkout_response) \<times> store" where
  "create_checkout_session e payload st =
     (if items payload = [] then (Inl (HTTPException 400 ''No items provided''), st)
      else
        case get_documents ''product'' None st of
          (Inl msg, st1) \<Rightarrow> (Inl (StoreError msg), st1)
        | (Inr products, st1) \<Rightarrow>
            let by_id = index_products products Map.empty in
            (case price_items e by_id (items payload) 0 [] of
               Inl err \<Rightarrow> (Inl err, st1)
             | Inr (amount_total, lis) \<Rightarrow>
                 (case OrderSchema (product_id (hd (items payload)))
                         (sum_list (map quantity (items payload)))
                         amount_total (customer_email payload) ''created'' of
                    Inl err \<Rightarrow> (Inl err, st1)
                  | Inr ord \<Rightarrow>
                      (case create_document ''order'' (dump_order ord) st1 of
                         (Inl msg, st2) \<Rightarrow> (Inl (StoreError msg), st2)
                       | (Inr oid, st2) \<Rightarrow>
                           (Inr (checkout_reply e by_id payload oid), st2)))))"

subsection \<open>Leads and the spreadsheet\<close>

text \<open>
  The spreadsheet side is reached through three parameters of the environment:
  \<open>json_loads\<close> and \<open>b64decode_utf8\<close> (\<^verbatim>\<open>base64.b64decode(s).decode("utf-8")\<close>) are
  Python's, and \<open>sheets_append\<close> stands for building the credentials and the service
  from the parsed document and executing the append; it returns the
  \<^verbatim>\<open>updatedRange\<close> of the result when there is one.
\<close>

text \<open>\<^verbatim>\<open>x or dflt\<close> on an optional text.\<close>

definition or_str :: "string option \<Rightarrow> string \<Rightarrow> string" where
  "or_str x dflt = (case x of None \<Rightarrow> dflt | Some s \<Rightarrow> if s = [] then dflt else s)"

text \<open>The inner \<^verbatim>\<open>try\<close>: direct parse, and on \<^verbatim>\<open>json.JSONDecodeError\<close> the base64 route.\<close>

definition service_account_info :: "env \<Rightarrow> string \<Rightarrow> exn + pyval" where
  "service_account_info e service_account_json =
     (case json_loads e service_account_json of
        Inr info \<Rightarrow> Inr info
      | Inl JSONDecodeError \<Rightarrow>
          (case b64decode_utf8 e service_account_json of
             Inl err \<Rightarrow> Inl err
           | Inr decoded \<Rightarrow> json_loads e decoded)
      | Inl err \<Rightarrow> Inl err)"

definition append_lead_to_google_sheets :: "env \<Rightarrow> lead \<Rightarrow> string option" where
  "append_lead_to_google_sheets e l =
     (case getenv e ''GOOGLE_SHEETS_SPREADSHEET_ID'' of
        None \<Rightarrow> None
      | Some spreadsheet_id \<Rightarrow>
     (case getenv e ''GOOGLE_SHEETS_SERVICE_ACCOUNT_JSON'' of
        None \<Rightarrow> None
      | Some service_account_json \<Rightarrow>
          let sheet_range = getenv_default e ''GOOGLE_SHEETS_LEADS_RANGE'' ''Leads!A:F'' in
          if spreadsheet_id = [] \<or> service_account_json = [] then None
          else (case google_import e of
                  Some err \<Rightarrow> None
                | None \<Rightarrow>
                    (case service_account_info e service_account_json of
                       Inl err \<Rightarrow> None
                     | Inr info \<Rightarrow>
                         (case sheets_append e info spreadsheet_id sheet_range
                                 [name l, email l, or_str (phone l) [],
                                  or_str (interest l) [], or_str (source l) ''website'',
                                  or_str (lead_notes l) []] of
                            Inl err \<Rightarrow> None
                          | Inr updated \<Rightarrow>
                              Some (case updated of None \<Rightarrow> ''None'' | Some r \<Rightarrow> r))))))"

record lead_response =
  lead_status :: string
  lead_id :: string
  google_range :: "string option"

text \<open>
  The route rebuilds the validated input as a Lead, which has the same fields, and
  inserts it; only a failing insert is an error of the request.
\<close>

definition create_lead :: "env \<Rightarrow> lead \<Rightarrow> store \<Rightarrow> (exn + lead_response) \<times> store" where
  "create_lead e l st =
     (case create_document ''lead'' (dump_lead l) st of
        (Inl msg, st1) \<Rightarrow> (Inl (HTTPException 500 (''Database error: '' @ msg)), st1)
      | (Inr inserted_id, st1) \<Rightarrow>
          (Inr \<lparr>lead_status = ''ok'', lead_id = inserted_id,
                google_range = append_lead_to_google_sheets e l\<rparr>, st1))"

subsection \<open>Diagnostics\<close>

text \<open>
  The slice \<^verbatim>\<open>s[:n]\<close> of a text keeps its first \<open>n\<close> characters.  On the UTF-8
  bytes of the text a character is a byte followed by its continuation bytes
  (\<open>0x80\<close> to \<open>0xBF\<close>).
\<close>

definition continuation :: "char \<Rightarrow> bool" where
  "continuation c = (128 \<le> (of_char c :: nat) \<and> (of_char c :: nat) < 192)"

fun utf8_take :: "nat \<Rightarrow> string \<Rightarrow> string" where
  "utf8_take 0 s = []"
| "utf8_take (Suc n) [] = []"
| "utf8_take (Suc n) (c # cs) =
     c # takeWhile continuation cs @ utf8_take n (dropWhile continuation cs)"

text \<open>The marks of the status texts, as their UTF-8 bytes.\<close>

definition check_mark :: string where
  "check_mark = [CHR 0xE2, CHR 0x9C, CHR 0x85]"

definition cross_mark :: string where
  "cross_mark = [CHR 0xE2, CHR 0x9D, CHR 0x8C]"

definition warning_sign :: string where
  "warning_sign = [CHR 0xE2, CHR 0x9A, CHR 0xA0, CHR 0xEF, CHR 0xB8, CHR 0x8F]"

record diagnostics =
  backend :: string
  database :: string
  database_url :: "string option"
  database_name :: "string option"
  connection_status :: string
  collections :: "string list"

text \<open>
  The inner \<^verbatim>\<open>try\<close> of the report: listing the collections of the handle.
\<close>

definition report_collections :: "db_handle \<Rightarrow> diagnostics \<Rightarrow> diagnostics" where
  "report_collections h response =
     (case list_collection_names h of
        Inr cs \<Rightarrow>
          response\<lparr>collections := take 10 cs,
                   database := check_mark @ '' Connected & Working''\<rparr>
      | Inl msg \<Rightarrow>
          response\<lparr>database := warning_sign @ '' Connected but Error: '' @ utf8_take 80 msg\<rparr>)"

definition test_database :: "env \<Rightarrow> diagnostics" where
  "test_database e =
     (let response = \<lparr>backend = check_mark @ '' Running'',
                      database = cross_mark @ '' Not Available'',
                      database_url = None, database_name = None,
                      connection_status = ''Not Connected'', collections = []\<rparr>
      in case db e of
           None \<Rightarrow> response\<lparr>database := warning_sign @ '' Available but not initialized''\<rparr>
         | Some h \<Rightarrow>
             let r1 = response\<lparr>database := check_mark @ '' Available''\<rparr>;
                 r2 = r1\<lparr>database_url :=
                           Some (if set_and_nonempty (getenv e ''DATABASE_URL'')
                                 then check_mark @ '' Set'' else cross_mark @ '' Not Set'')\<rparr>
             in (case db_name h of
                   Inl msg \<Rightarrow> r2\<lparr>database := cross_mark @ '' Error: '' @ utf8_take 80 msg\<rparr>
                 | Inr nm \<Rightarrow>
                     let r3 = r2\<lparr>database_name := Some (or_str nm ''Unknown'')\<rparr>;
                         r4 = r3\<lparr>connection_status := ''Connected''\<rparr>
                     in report_collections h r4))"

subsection \<open>The service as a whole\<close>

text \<open>One request to one of the five routes, and its effect on the store.\<close>

datatype request =
    GetRoot
  | GetProducts
  | PostLead lead
  | PostCheckout checkout_request
  | GetTest

fun serve :: "env \<Rightarrow> request \<Rightarrow> store \<Rightarrow> store" where
  "serve e GetRoot st = st"
| "serve e GetProducts st = snd (list_products st)"
| "serve e (PostLead l) st = snd (create_lead e l st)"
| "serve e (PostCheckout payload) st = snd (create_checkout_session e payload st)"
| "serve e GetTest st = st"

text \<open>A run of the service: requests one after the other, each in its environment.\<close>

fun serve_all :: "(env \<times> request) list \<Rightarrow> store \<Rightarrow> store" where
  "serve_all [] st = st"
| "serve_all ((e, r) # rs) st = serve_all rs (serve e r st)"

section \<open>Notions of the specification\<close>

text \<open>The catalog a checkout prices against: the stored products, by identifier.\<close>

definition catalog :: "store \<Rightarrow> (string \<rightharpoonup> document)" where
  "catalog st = index_products (colls st ''product'') Map.empty"

text \<open>The integer a product document carries as \<^verbatim>\<open>price_cents\<close>, if it carries one.\<close>

definition int_price :: "document \<Rightarrow> int option" where
  "int_price d =
     (case map_of (doc_fields d) ''price_cents'' of Some (PInt n) \<Rightarrow> Some n | _ \<Rightarrow> None)"

text \<open>
  A line item is priced when its product resolves to a document that carries an integer
  price, as the Product schema requires of it.
\<close>

definition priced :: "(string \<rightharpoonup> document) \<Rightarrow> checkout_item \<Rightarrow> bool" where
  "priced cat it =
     (case cat (product_id it) of None \<Rightarrow> False | Some d \<Rightarrow> int_price d \<noteq> None)"

text \<open>
  The total of section 8 of the specification, in its words: the sum over the cart of
  price_cents times max(1, quantity).
\<close>

definition line_total :: "(string \<rightharpoonup> document) \<Rightarrow> checkout_item \<Rightarrow> int" where
  "line_total cat it =
     (case cat (product_id it) of
        None \<Rightarrow> 0
      | Some d \<Rightarrow> (case int_price d of None \<Rightarrow> 0 | Some n \<Rightarrow> n * max 1 (quantity it)))"

definition clamped_total :: "(string \<rightharpoonup> document) \<Rightarrow> checkout_item list \<Rightarrow> int" where
  "clamped_total cat its = sum_list (map (line_total cat) its)"

text \<open>The value of a key in a stored document.\<close>

definition field :: "document \<Rightarrow> string \<Rightarrow> pyval option" where
  "field d k = map_of (doc_fields d) k"

section \<open>Scenario data\<close>

text \<open>
  An environment with nothing configured and no collaborator reachable, and the store of
  the scenarios of section 8: one product \<open>P1\<close> costing 5900 cents.
\<close>

definition bare_env :: env where
  "bare_env =
     \<lparr>getenv = (\<lambda>k. None), str_to_int = (\<lambda>s. None),
      stripe_import = None,
      stripe_session_create = (\<lambda>r. Inl (External ''unreachable'')),
      google_import = None,
      json_loads = (\<lambda>s. Inl JSONDecodeError),
      b64decode_utf8 = (\<lambda>s. Inl ValueError),
      sheets_append = (\<lambda>info sid rng row. Inl (External ''unreachable'')),
      db = None\<rparr>"

definition empty_store :: store where
  "empty_store = \<lparr>colls = (\<lambda>c. []), next_id = 0, faults = []\<rparr>"

definition p1_store :: store where
  "p1_store =
     \<lparr>colls = (\<lambda>c. if c = ''product''
                     then [\<lparr>doc_id = ''P1'',
                            doc_fields = [(''title'', PStr ''Citrus Bloom''),
                                          (''price_cents'', PInt 5900),
                                          (''currency'', PStr ''usd'')]\<rparr>]
                     else []),
      next_id = 0, faults = []\<rparr>"

definition cart :: "(string \<times> int) list \<Rightarrow> checkout_request" where
  "cart xs = \<lparr>items = map (\<lambda>(p, q). \<lparr>product_id = p, quantity = q\<rparr>) xs,
              customer_email = None\<rparr>"

text \<open>The payment provider configured and answering with a session.\<close>

definition paying_env :: env where
  "paying_env =
     bare_env\<lparr>getenv := (\<lambda>k. if k = ''STRIPE_SECRET_KEY'' then Some ''sk_test'' else None),
              stripe_session_create := (\<lambda>r. Inr ''https://pay.example/session'')\<rparr>"

text \<open>The payment provider configured and refusing every session.\<close>

definition refusing_env :: env where
  "refusing_env =
     paying_env\<lparr>stripe_session_create := (\<lambda>r. Inl (External ''card network down''))\<rparr>"

text \<open>
  The spreadsheet configured with a credential, and a client that accepts the account
  document.  The two parsers are given on the texts of the scenarios as Python has them:
  the account document parses as JSON and no other of the texts does; the base64 text of
  the document decodes to it; \<open>%%%\<close> holds no base64 character and decodes to the
  empty text; \<open>abc\<close> is base64 with incorrect padding, and decoding it raises.
\<close>

definition account_json :: string where
  \<open>account_json = ''{"type": "service_account"}''\<close>

definition account_info :: pyval where
  "account_info = PDict [(''type'', PStr ''service_account'')]"

definition sheets_env :: "string \<Rightarrow> env" where
  "sheets_env cred =
     bare_env\<lparr>getenv := (\<lambda>k. if k = ''GOOGLE_SHEETS_SPREADSHEET_ID'' then Some ''sheet-1''
                              else if k = ''GOOGLE_SHEETS_SERVICE_ACCOUNT_JSON'' then Some cred
                              else None),
              json_loads := (\<lambda>s. if s = account_json then Inr account_info
                                  else Inl JSONDecodeError),
              b64decode_utf8 := (\<lambda>s. if s = ''eyJ0eXBlIjogInNlcnZpY2VfYWNjb3VudCJ9''
                                      then Inr account_json
                                      else if s = ''%%%'' then Inr [] else Inl ValueError),
              sheets_append := (\<lambda>info sid rng row.
                                  if info = account_info then Inr (Some ''Leads!A2:F2'')
                                  else Inl (External ''invalid credentials''))\<rparr>"

definition a_lead :: lead where
  "a_lead = \<lparr>name = ''Ada'', email = ''ada@example.com'', phone = None, interest = None,
             source = Some ''website'', lead_notes = None\<rparr>"

text \<open>A catalog whose only product has no \<^verbatim>\<open>price_cents\<close>.\<close>

definition unpriced_store :: store where
  "unpriced_store =
     \<lparr>colls = (\<lambda>c. if c = ''product''
                     then [\<lparr>doc_id = ''F1'', doc_fields = [(''title'', PStr ''Sample vial'')]\<rparr>]
                     else []),
      next_id = 0, faults = []\<rparr>"

text \<open>A store handle that lists twelve collections, and one whose listing fails.\<close>

definition twelve_env :: env where
  "twelve_env =
     bare_env\<lparr>db := Some \<lparr>db_name = Inr (Some ''perfume''),
                          list_collection_names =
                            Inr [''c01'', ''c02'', ''c03'', ''c04'', ''c05'', ''c06'',
                                 ''c07'', ''c08'', ''c09'', ''c10'', ''c11'', ''c12'']\<rparr>\<rparr>"

definition failing_env :: env where
  "failing_env =
     bare_env\<lparr>db := Some \<lparr>db_name = Inr None,
                          list_collection_names = Inl ''connection refused''\<rparr>\<rparr>"

section \<open>The document store\<close>

lemma consume_colls: "colls (consume st) = colls st"
  by (simp add: consume_def)

lemma get_documents_colls: "colls (snd (get_documents c l st)) = colls st"
  by (simp add: get_documents_def consume_def split: option.splits)

lemma create_document_other:
  "c' \<noteq> c \<Longrightarrow> colls (snd (create_document c data st)) c' = colls st c'"
  by (simp add: create_document_def consume_def Let_def split: option.splits)

lemma digits_small:
  "digits 0 = ''0''" "digits (Suc 0) = ''1''" "digits (Suc (Suc 0)) = ''2''"
  by code_simp+

lemmas store_eval = get_documents_def create_document_def next_fault_def consume_def Let_def

lemmas checkout_eval = create_checkout_session_def catalog_def unit_price_def py_get_def py_or_def
  OrderSchema_def dump_order_def opt_str_def opt_int_def checkout_reply_def mock_checkout_def
  cart_def

lemma p1_catalog:
  "catalog p1_store =
     [''P1'' \<mapsto> \<lparr>doc_id = ''P1'',
                  doc_fields = [(''title'', PStr ''Citrus Bloom''), (''price_cents'', PInt 5900),
                                (''currency'', PStr ''usd'')]\<rparr>]"
  by (simp add: catalog_def p1_store_def)

section \<open>Pricing\<close>

lemma unit_price_int: "int_price d = Some n \<Longrightarrow> unit_price e d = Inr n"
  by (auto simp: int_price_def unit_price_def py_get_def py_or_def
        split: option.splits pyval.splits)

lemma unit_price_falsy:
  "\<not> truthy (py_get d ''price_cents'' PNone) \<Longrightarrow> unit_price e d = Inr 0"
  by (simp add: unit_price_def py_or_def)

text \<open>Over a cart of priced items the loop ends with the clamped total added.\<close>

lemma price_items_priced:
  "\<forall>it\<in>set its. priced cat it \<Longrightarrow>
   \<exists>lis. price_items e cat its amt acc = Inr (amt + clamped_total cat its, lis)"
proof (induction its arbitrary: amt acc)
  case Nil
  then show ?case by (simp add: clamped_total_def)
next
  case (Cons it its)
  from Cons.prems obtain d n where d: "cat (product_id it) = Some d" "int_price d = Some n"
    by (auto simp: priced_def split: option.splits)
  from Cons.prems have "\<forall>it\<in>set its. priced cat it" by simp
  from Cons.IH[OF this] obtain lis where
    "price_items e cat its (amt + n * max 1 (quantity it))
       (acc @ [\<lparr>li_name = py_get d ''title'' PNone, li_amount = n,
                 li_currency = py_get d ''currency'' (PStr ''usd''),
                 li_quantity = max 1 (quantity it)\<rparr>])
     = Inr (amt + n * max 1 (quantity it) + clamped_total cat its, lis)"
    by blast
  with d show ?case
    by (simp add: unit_price_int clamped_total_def line_total_def Let_def)
qed

lemma price_items_unresolved:
  "\<exists>it\<in>set its. cat (product_id it) = None \<Longrightarrow> isl (price_items e cat its amt acc)"
  by (induction its arbitrary: amt acc) (auto simp: Let_def split: option.splits sum.splits)

lemma price_items_not_found:
  "find (\<lambda>it. cat (product_id it) = None) its = Some it0 \<Longrightarrow>
   \<forall>it\<in>set its. \<forall>d. cat (product_id it) = Some d \<longrightarrow> \<not> isl (unit_price e d) \<Longrightarrow>
   price_items e cat its amt acc =
     Inl (HTTPException 404 (''Product not found: '' @ product_id it0))"
  by (induction its arbitrary: amt acc)
     (auto simp: Let_def split: option.splits sum.splits if_splits)

section \<open>The two outcomes of a checkout\<close>

text \<open>
  A checkout that changes the order collection went through every step: the catalog was
  read, the cart priced, the order validated and stored, and the reply built from it.
\<close>

lemma checkout_persisted:
  assumes "create_checkout_session e payload st = (r, st')"
    and "colls st' ''order'' \<noteq> colls st ''order''"
  shows "\<exists>amount lis ord.
           items payload \<noteq> [] \<and> next_fault st = None \<and>
           price_items e (catalog st) (items payload) 0 [] = Inr (amount, lis) \<and>
           OrderSchema (product_id (hd (items payload))) (sum_list (map quantity (items payload)))
              amount (customer_email payload) ''created'' = Inr ord \<and>
           next_fault (consume st) = None \<and>
           r = Inr (checkout_reply e (catalog st) payload (digits (next_id st))) \<and>
           colls st' = (colls st)(''order'' := colls st ''order'' @
                          [\<lparr>doc_id = digits (next_id st), doc_fields = dump_order ord\<rparr>])"
  using assms
  by (auto simp: create_checkout_session_def get_documents_def create_document_def catalog_def
        consume_def Let_def split: if_splits option.splits sum.splits prod.splits)

text \<open>Any other checkout ends in an error and leaves every collection as it was.\<close>

lemma checkout_not_persisted:
  assumes "create_checkout_session e payload st = (r, st')"
    and "colls st' ''order'' = colls st ''order''"
  shows "isl r \<and> colls st' = colls st"
  using assms
  by (auto simp: create_checkout_session_def get_documents_def create_document_def catalog_def
        consume_def Let_def split: if_splits option.splits sum.splits prod.splits)

text \<open>
  The order goes through when the store answers twice, every item is priced, the total
  is not negative and the quantities as sent add up to at least one.
\<close>

lemma checkout_succeeds:
  assumes "items payload \<noteq> []"
    and "next_fault st = None" and "next_fault (consume st) = None"
    and "\<forall>it\<in>set (items payload). priced (catalog st) it"
    and "0 \<le> clamped_total (catalog st) (items payload)"
    and "1 \<le> sum_list (map quantity (items payload))"
  shows "fst (create_checkout_session e payload st) =
           Inr (checkout_reply e (catalog st) payload (digits (next_id st))) \<and>
         length (colls (snd (create_checkout_session e payload st)) ''order'') =
           Suc (length (colls st ''order''))"
proof -
  from price_items_priced[OF assms(4), of e 0 "[]"] obtain lis where
    "price_items e (catalog st) (items payload) 0 [] =
       Inr (clamped_total (catalog st) (items payload), lis)" by auto
  with assms(1,2,3,5,6) show ?thesis
    by (simp add: create_checkout_session_def get_documents_def create_document_def catalog_def
          OrderSchema_def Let_def consume_def)
qed

text \<open>What the stored order document holds, whatever the cart.\<close>

lemma persisted_order_fields:
  assumes "create_checkout_session e payload st = (r, st')"
    and "colls st' ''order'' \<noteq> colls st ''order''"
  shows "\<exists>d. colls st' ''order'' = colls st ''order'' @ [d] \<and>
             field d ''status'' = Some (PStr ''created'') \<and>
             field d ''product_id'' = Some (PStr (product_id (hd (items payload)))) \<and>
             field d ''quantity'' = Some (PInt (sum_list (map quantity (items payload)))) \<and>
             field d ''customer_email'' = Some (opt_str (customer_email payload))"
proof -
  from checkout_persisted[OF assms] obtain amount ord where
    o: "OrderSchema (product_id (hd (items payload))) (sum_list (map quantity (items payload)))
              amount (customer_email payload) ''created'' = Inr ord"
    and c: "colls st' = (colls st)(''order'' := colls st ''order'' @
                          [\<lparr>doc_id = digits (next_id st), doc_fields = dump_order ord\<rparr>])"
    by blast
  from o have "ord = \<lparr>order_product_id = product_id (hd (items payload)),
                      order_quantity = sum_list (map quantity (items payload)),
                      amount_total_cents = amount, order_currency = ''usd'', status = ''created'',
                      order_customer_email = customer_email payload,
                      checkout_session_id = None, created_at = None, updated_at = None\<rparr>"
    by (auto simp: OrderSchema_def split: if_splits)
  with c show ?thesis
    by (simp add: field_def dump_order_def)
qed

section \<open>The order record (C1, C2)\<close>

text \<open>
  C1.  The claim: the persisted order has status "created", the product_id of the first
  line item, the customer_email of the request, and as quantity the sum of the clamped
  quantities max(1, quantity).  The first three hold (\<open>persisted_order_fields\<close>).  The
  quantity does not: the order is built from the sum of the quantities as sent, while the
  pricing loop and the provider's line items clamp each one.  With product P1 at 5900
  cents, the cart of P1 with quantity 0 adds up to quantity 0, the order fails its
  \<^verbatim>\<open>ge=1\<close> constraint and nothing is stored; the cart of P1 with quantities 0 and 2 stores
  quantity 2 next to the amount of three units, 17700.
\<close>

theorem order_quantity_not_clamped:
  "create_checkout_session bare_env (cart [(''P1'', 0)]) p1_store
     = (Inl ValidationError, consume p1_store) \<and>
   colls (consume p1_store) ''order'' = [] \<and>
   (\<exists>d. colls (snd (create_checkout_session bare_env (cart [(''P1'', 0), (''P1'', 2)]) p1_store))
           ''order'' = [d] \<and>
        field d ''quantity'' = Some (PInt 2) \<and>
        field d ''amount_total_cents'' = Some (PInt 17700))"
  by (simp add: store_eval checkout_eval p1_store_def bare_env_def field_def)

text \<open>
  C2.  For a cart whose items all resolve to products carrying an integer price_cents,
  the order that the checkout stores has as amount_total_cents the sum over the line
  items of price_cents times max(1, quantity), in integer cents.
\<close>

theorem order_amount_clamped_total:
  assumes "create_checkout_session e payload st = (r, st')"
    and "\<forall>it\<in>set (items payload). priced (catalog st) it"
    and "colls st' ''order'' \<noteq> colls st ''order''"
  shows "\<exists>d. colls st' ''order'' = colls st ''order'' @ [d] \<and>
             field d ''amount_total_cents'' =
               Some (PInt (clamped_total (catalog st) (items payload)))"
proof -
  from checkout_persisted[OF assms(1,3)] obtain amount lis ord where
    p: "price_items e (catalog st) (items payload) 0 [] = Inr (amount, lis)"
    and o: "OrderSchema (product_id (hd (items payload))) (sum_list (map quantity (items payload)))
              amount (customer_email payload) ''created'' = Inr ord"
    and c: "colls st' = (colls st)(''order'' := colls st ''order'' @
                          [\<lparr>doc_id = digits (next_id st), doc_fields = dump_order ord\<rparr>])"
    by blast
  from price_items_priced[OF assms(2), of e 0 "[]"] p
  have "amount = clamped_total (catalog st) (items payload)" by auto
  with o have "amount_total_cents ord = clamped_total (catalog st) (items payload)"
    by (auto simp: OrderSchema_def split: if_splits)
  with c show ?thesis
    by (simp add: field_def dump_order_def)
qed

text \<open>The scenario of the specification: two of P1 at 5900 cents come to 11800.\<close>

theorem order_amount_scenario:
  "\<exists>d. colls (snd (create_checkout_session bare_env (cart [(''P1'', 2)]) p1_store)) ''order'' = [d] \<and>
       field d ''amount_total_cents'' = Some (PInt 11800)"
  using order_amount_clamped_total[of bare_env "cart [(''P1'', 2)]" p1_store
        "fst (create_checkout_session bare_env (cart [(''P1'', 2)]) p1_store)"
        "snd (create_checkout_session bare_env (cart [(''P1'', 2)]) p1_store)"]
  by (simp add: store_eval checkout_eval p1_store_def bare_env_def priced_def int_price_def
        clamped_total_def line_total_def)

section \<open>Rejected carts (C3)\<close>

lemma checkout_empty:
  "items payload = [] \<Longrightarrow>
   create_checkout_session e payload st = (Inl (HTTPException 400 ''No items provided''), st)"
  by (simp add: create_checkout_session_def)

lemma checkout_unresolved:
  assumes "\<exists>it\<in>set (items payload). catalog st (product_id it) = None"
  shows "isl (fst (create_checkout_session e payload st)) \<and>
         colls (snd (create_checkout_session e payload st)) = colls st"
proof -
  from assms have ne: "items payload \<noteq> []" by auto
  have "isl (price_items e (catalog st) (items payload) 0 [])"
    using assms by (rule price_items_unresolved)
  then obtain err where "price_items e (catalog st) (items payload) 0 [] = Inl err"
    by (cases "price_items e (catalog st) (items payload) 0 []") auto
  with ne show ?thesis
    by (simp add: create_checkout_session_def get_documents_def catalog_def consume_def
          split: option.splits)
qed

lemma checkout_not_found:
  assumes "next_fault st = None"
    and "find (\<lambda>it. catalog st (product_id it) = None) (items payload) = Some it0"
    and "\<forall>it\<in>set (items payload). \<forall>d. catalog st (product_id it) = Some d
           \<longrightarrow> \<not> isl (unit_price e d)"
  shows "create_checkout_session e payload st =
           (Inl (HTTPException 404 (''Product not found: '' @ product_id it0)), consume st)"
proof -
  from assms(2) have ne: "items payload \<noteq> []" by auto
  from price_items_not_found[OF assms(2,3)] ne assms(1) show ?thesis
    by (simp add: create_checkout_session_def get_documents_def catalog_def)
qed

text \<open>
  C3.  An empty cart is answered with the client error 400 and the store is untouched.
  A cart with a line item whose product_id is not in the catalog always ends in an error
  with every collection unchanged, so no order is created; the error is 404 "Product not
  found" for the first such item when the catalog could be read and the products of the
  cart have a price_cents that converts (an integer, as the Product schema has it, or a
  false value).
\<close>

theorem rejected_cart_creates_no_order:
  "(items payload = [] \<longrightarrow>
      create_checkout_session e payload st = (Inl (HTTPException 400 ''No items provided''), st)) \<and>
   ((\<exists>it\<in>set (items payload). catalog st (product_id it) = None) \<longrightarrow>
      isl (fst (create_checkout_session e payload st)) \<and>
      colls (snd (create_checkout_session e payload st)) = colls st) \<and>
   (next_fault st = None \<and>
      find (\<lambda>it. catalog st (product_id it) = None) (items payload) = Some it0 \<and>
      (\<forall>it\<in>set (items payload). \<forall>d. catalog st (product_id it) = Some d
          \<longrightarrow> \<not> isl (unit_price e d)) \<longrightarrow>
      create_checkout_session e payload st =
        (Inl (HTTPException 404 (''Product not found: '' @ product_id it0)), consume st))"
  using checkout_empty checkout_unresolved checkout_not_found by blast

text \<open>The empty cart, and a cart whose second item \<open>PX\<close> is unknown.\<close>

theorem rejected_cart_scenarios:
  "create_checkout_session bare_env (cart []) p1_store
     = (Inl (HTTPException 400 ''No items provided''), p1_store) \<and>
   create_checkout_session bare_env (cart [(''P1'', 1), (''PX'', 1)]) p1_store
     = (Inl (HTTPException 404 ''Product not found: PX''), consume p1_store) \<and>
   colls (consume p1_store) ''order'' = []"
  using rejected_cart_creates_no_order
          [where payload = "cart []" and e = bare_env and st = p1_store]
        rejected_cart_creates_no_order
          [where payload = "cart [(''P1'', 1), (''PX'', 1)]" and e = bare_env and st = p1_store]
  by (simp add: cart_def p1_catalog unit_price_def py_get_def py_or_def)
     (simp add: p1_store_def next_fault_def consume_def)

section \<open>The fallback reply (C4)\<close>

lemma stripe_checkout_fails:
  "stripe_import e \<noteq> None \<or> (\<forall>req. isl (stripe_session_create e req)) \<Longrightarrow>
   isl (stripe_checkout e key by_id payload oid)"
  by (auto simp: stripe_checkout_def Let_def split: option.splits sum.splits)
     (metis sum.disc(2))

lemma checkout_reply_cases:
  "checkout_reply e by_id payload oid = mock_checkout oid \<or>
   (\<exists>key resp. getenv e ''STRIPE_SECRET_KEY'' = Some key \<and> key \<noteq> [] \<and>
      stripe_checkout e key by_id payload oid = Inr resp \<and>
      checkout_reply e by_id payload oid = resp)"
  by (simp add: checkout_reply_def split: option.splits sum.splits)

lemma checkout_reply_mock:
  assumes "\<not> set_and_nonempty (getenv e ''STRIPE_SECRET_KEY'') \<or> stripe_import e \<noteq> None \<or>
     (\<forall>req. isl (stripe_session_create e req))"
  shows "checkout_reply e by_id payload oid = mock_checkout oid"
proof (rule ccontr)
  assume "checkout_reply e by_id payload oid \<noteq> mock_checkout oid"
  with checkout_reply_cases[of e by_id payload oid] obtain key resp where
    k: "getenv e ''STRIPE_SECRET_KEY'' = Some key" "key \<noteq> []"
    and s: "stripe_checkout e key by_id payload oid = Inr resp"
    by blast
  from k have "set_and_nonempty (getenv e ''STRIPE_SECRET_KEY'')"
    by (simp add: set_and_nonempty_def)
  with assms have "isl (stripe_checkout e key by_id payload oid)"
    using stripe_checkout_fails by blast
  with s show False by simp
qed

text \<open>
  C4.  When the checkout has stored the order and the payment provider is not configured
  (no key, or an empty one), cannot be imported, or raises on the session request, the
  checkout returns normally: the reply is the mock URL \<open>https://checkout.mock/\<close> followed
  by the identifier of the stored order, with that identifier and a note, and the stored
  order has status "created".
\<close>

theorem provider_unavailable_mock_reply:
  assumes "create_checkout_session e payload st = (r, st')"
    and "colls st' ''order'' \<noteq> colls st ''order''"
    and "\<not> set_and_nonempty (getenv e ''STRIPE_SECRET_KEY'') \<or> stripe_import e \<noteq> None \<or>
         (\<forall>req. isl (stripe_session_create e req))"
  shows "\<exists>oid d resp.
           r = Inr resp \<and> checkout_url resp = ''https://checkout.mock/'' @ oid \<and>
           order_id resp = oid \<and> response_note resp \<noteq> None \<and>
           colls st' ''order'' = colls st ''order'' @ [d] \<and> doc_id d = oid \<and>
           field d ''status'' = Some (PStr ''created'')"
proof -
  from checkout_persisted[OF assms(1,2)] obtain amount ord where
    o: "OrderSchema (product_id (hd (items payload))) (sum_list (map quantity (items payload)))
              amount (customer_email payload) ''created'' = Inr ord"
    and r: "r = Inr (checkout_reply e (catalog st) payload (digits (next_id st)))"
    and c: "colls st' = (colls st)(''order'' := colls st ''order'' @
                          [\<lparr>doc_id = digits (next_id st), doc_fields = dump_order ord\<rparr>])"
    by blast
  from o have "status ord = ''created''"
    by (auto simp: OrderSchema_def split: if_splits)
  moreover from r assms(3) have "r = Inr (mock_checkout (digits (next_id st)))"
    by (simp add: checkout_reply_mock)
  ultimately show ?thesis using c
    by (simp add: mock_checkout_def field_def dump_order_def)
qed

text \<open>
  No credential configured, and a credential configured with the provider refusing: both
  give the mock URL of order \<open>0\<close>.
\<close>

theorem mock_reply_scenarios:
  "fst (create_checkout_session bare_env (cart [(''P1'', 1)]) p1_store)
     = Inr \<lparr>checkout_url = ''https://checkout.mock/0'', order_id = ''0'',
            response_note = Some ''Stripe not configured; using mock checkout URL. Set STRIPE_SECRET_KEY to enable real payments.''\<rparr> \<and>
   (\<exists>d. colls (snd (create_checkout_session bare_env (cart [(''P1'', 1)]) p1_store)) ''order'' = [d] \<and>
        doc_id d = ''0'' \<and> field d ''status'' = Some (PStr ''created'')) \<and>
   fst (create_checkout_session refusing_env (cart [(''P1'', 1)]) p1_store)
     = Inr \<lparr>checkout_url = ''https://checkout.mock/0'', order_id = ''0'',
            response_note = Some ''Stripe not configured; using mock checkout URL. Set STRIPE_SECRET_KEY to enable real payments.''\<rparr>"
  using provider_unavailable_mock_reply
          [where e = bare_env and payload = "cart [(''P1'', 1)]" and st = p1_store
             and r = "fst (create_checkout_session bare_env (cart [(''P1'', 1)]) p1_store)"
             and st' = "snd (create_checkout_session bare_env (cart [(''P1'', 1)]) p1_store)"]
        provider_unavailable_mock_reply
          [where e = refusing_env and payload = "cart [(''P1'', 1)]" and st = p1_store
             and r = "fst (create_checkout_session refusing_env (cart [(''P1'', 1)]) p1_store)"
             and st' = "snd (create_checkout_session refusing_env (cart [(''P1'', 1)]) p1_store)"]
  by (simp add: store_eval checkout_eval stripe_checkout_def getenv_default_def p1_store_def
        refusing_env_def paying_env_def bare_env_def field_def set_and_nonempty_def digits_small)

section \<open>The spreadsheet credential (C5)\<close>

lemma append_none_if_info_fails:
  "getenv e ''GOOGLE_SHEETS_SERVICE_ACCOUNT_JSON'' = Some cred \<Longrightarrow>
   isl (service_account_info e cred) \<Longrightarrow> append_lead_to_google_sheets e l = None"
  by (auto simp: append_lead_to_google_sheets_def Let_def isl_def split: option.splits sum.splits)

text \<open>With the spreadsheet configured, the sync is the append made with the parsed credential.\<close>

lemma append_with_info:
  assumes "getenv e ''GOOGLE_SHEETS_SPREADSHEET_ID'' = Some sid" "sid \<noteq> []"
    and "getenv e ''GOOGLE_SHEETS_SERVICE_ACCOUNT_JSON'' = Some cred" "cred \<noteq> []"
    and "google_import e = None"
    and "service_account_info e cred = Inr info"
  shows "append_lead_to_google_sheets e l =
           (case sheets_append e info sid
                   (getenv_default e ''GOOGLE_SHEETS_LEADS_RANGE'' ''Leads!A:F'')
                   [name l, email l, or_str (phone l) [], or_str (interest l) [],
                    or_str (source l) ''website'', or_str (lead_notes l) []] of
              Inl err \<Rightarrow> None
            | Inr updated \<Rightarrow> Some (case updated of None \<Rightarrow> ''None'' | Some r \<Rightarrow> r))"
  using assms by (simp add: append_lead_to_google_sheets_def Let_def)

lemma create_lead_ok:
  "next_fault st = None \<Longrightarrow>
   fst (create_lead e l st) =
     Inr \<lparr>lead_status = ''ok'', lead_id = digits (next_id st),
          google_range = append_lead_to_google_sheets e l\<rparr>"
  by (simp add: create_lead_def create_document_def Let_def)

text \<open>
  C5.  With the spreadsheet configured and the client importable, for every credential:
  when the credential parses as JSON, the sync is the append made with the document so
  parsed, whatever base64 decoding would give; when the direct parse fails with a JSON
  decode error and the base64-decoded credential parses, the sync is the append made with
  that document.  When the direct parse fails and the base64 route fails too (at the
  decoding or at the second parse), the sync returns nothing, and creating a lead whose
  insert succeeds still answers "ok" with the new identifier and google_range null.
\<close>

theorem credential_fallback_silent:
  "(getenv e ''GOOGLE_SHEETS_SPREADSHEET_ID'' = Some sid \<and> sid \<noteq> [] \<and>
    getenv e ''GOOGLE_SHEETS_SERVICE_ACCOUNT_JSON'' = Some cred \<and> cred \<noteq> [] \<and>
    google_import e = None \<and>
    (json_loads e cred = Inr info \<or>
     json_loads e cred = Inl JSONDecodeError \<and> b64decode_utf8 e cred = Inr decoded \<and>
       json_loads e decoded = Inr info) \<longrightarrow>
      append_lead_to_google_sheets e l =
        (case sheets_append e info sid
                (getenv_default e ''GOOGLE_SHEETS_LEADS_RANGE'' ''Leads!A:F'')
                [name l, email l, or_str (phone l) [], or_str (interest l) [],
                 or_str (source l) ''website'', or_str (lead_notes l) []] of
           Inl err \<Rightarrow> None
         | Inr updated \<Rightarrow> Some (case updated of None \<Rightarrow> ''None'' | Some r \<Rightarrow> r))) \<and>
   (getenv e ''GOOGLE_SHEETS_SERVICE_ACCOUNT_JSON'' = Some cred \<and>
    isl (json_loads e cred) \<and>
    (isl (b64decode_utf8 e cred) \<or>
     (\<exists>decoded. b64decode_utf8 e cred = Inr decoded \<and> isl (json_loads e decoded))) \<longrightarrow>
      append_lead_to_google_sheets e l = None \<and>
      (next_fault st = None \<longrightarrow>
         fst (create_lead e l st) =
           Inr \<lparr>lead_status = ''ok'', lead_id = digits (next_id st), google_range = None\<rparr>))"
proof (intro conjI impI)
  assume a: "getenv e ''GOOGLE_SHEETS_SPREADSHEET_ID'' = Some sid \<and> sid \<noteq> [] \<and>
    getenv e ''GOOGLE_SHEETS_SERVICE_ACCOUNT_JSON'' = Some cred \<and> cred \<noteq> [] \<and>
    google_import e = None \<and>
    (json_loads e cred = Inr info \<or>
     json_loads e cred = Inl JSONDecodeError \<and> b64decode_utf8 e cred = Inr decoded \<and>
       json_loads e decoded = Inr info)"
  then have "service_account_info e cred = Inr info"
    by (auto simp: service_account_info_def)
  with a show "append_lead_to_google_sheets e l =
        (case sheets_append e info sid
                (getenv_default e ''GOOGLE_SHEETS_LEADS_RANGE'' ''Leads!A:F'')
                [name l, email l, or_str (phone l) [], or_str (interest l) [],
                 or_str (source l) ''website'', or_str (lead_notes l) []] of
           Inl err \<Rightarrow> None
         | Inr updated \<Rightarrow> Some (case updated of None \<Rightarrow> ''None'' | Some r \<Rightarrow> r))"
    by (simp add: append_with_info)
next
  assume a: "getenv e ''GOOGLE_SHEETS_SERVICE_ACCOUNT_JSON'' = Some cred \<and>
    isl (json_loads e cred) \<and>
    (isl (b64decode_utf8 e cred) \<or>
     (\<exists>decoded. b64decode_utf8 e cred = Inr decoded \<and> isl (json_loads e decoded)))"
  then have "isl (service_account_info e cred)"
    by (auto simp: service_account_info_def isl_def split: sum.splits exn.splits)
  with a show n: "append_lead_to_google_sheets e l = None"
    by (simp add: append_none_if_info_fails)
  assume "next_fault st = None"
  with n show "fst (create_lead e l st) =
           Inr \<lparr>lead_status = ''ok'', lead_id = digits (next_id st), google_range = None\<rparr>"
    by (simp add: create_lead_ok)
qed

text \<open>
  Four credentials: the account document itself, its base64 text, and the two malformed
  ones, \<open>%%%\<close> (decodes to the empty text, which does not parse) and \<open>abc\<close> (decoding
  raises).  The first two are synced with the parsed document; for the other two the sync
  is nothing and the lead is still created.
\<close>

theorem malformed_credential_scenarios:
  "append_lead_to_google_sheets (sheets_env account_json) a_lead = Some ''Leads!A2:F2'' \<and>
   append_lead_to_google_sheets (sheets_env ''eyJ0eXBlIjogInNlcnZpY2VfYWNjb3VudCJ9'') a_lead
     = Some ''Leads!A2:F2'' \<and>
   append_lead_to_google_sheets (sheets_env ''%%%'') a_lead = None \<and>
   fst (create_lead (sheets_env ''%%%'') a_lead empty_store) =
     Inr \<lparr>lead_status = ''ok'', lead_id = ''0'', google_range = None\<rparr> \<and>
   append_lead_to_google_sheets (sheets_env ''abc'') a_lead = None \<and>
   fst (create_lead (sheets_env ''abc'') a_lead empty_store) =
     Inr \<lparr>lead_status = ''ok'', lead_id = ''0'', google_range = None\<rparr>"
  using credential_fallback_silent
          [of "sheets_env account_json" "''sheet-1''" account_json account_info]
        credential_fallback_silent
          [of "sheets_env ''eyJ0eXBlIjogInNlcnZpY2VfYWNjb3VudCJ9''" "''sheet-1''"
              "''eyJ0eXBlIjogInNlcnZpY2VfYWNjb3VudCJ9''" account_info account_json a_lead]
        credential_fallback_silent
          [where e = "sheets_env ''%%%''" and cred = "''%%%''" and l = a_lead
             and st = empty_store]
        credential_fallback_silent
          [where e = "sheets_env ''abc''" and cred = "''abc''" and l = a_lead
             and st = empty_store]
  by (simp add: sheets_env_def bare_env_def account_json_def account_info_def
        empty_store_def next_fault_def getenv_default_def digits_small)

section \<open>The seeder (C6)\<close>

lemma insert_samples_other:
  "c \<noteq> ''product'' \<Longrightarrow> colls (insert_samples ps st) c = colls st c"
  by (induction ps arbitrary: st) (simp_all add: create_document_other)

lemma take_one_empty: "(take (Suc 0) xs = []) = (xs = [])"
  by (cases xs) simp_all

lemma ensure_noop:
  "next_fault st \<noteq> None \<or> colls st ''product'' \<noteq> [] \<Longrightarrow>
   colls (ensure_sample_products st) = colls st"
  by (auto simp: ensure_sample_products_def get_documents_def consume_def take_one_empty
        split: option.splits)

text \<open>
  C6.  When the existence query raises, or returns a non-empty result, the seeder leaves
  every collection as it is.  So once the product collection is non-empty after a run of
  the seeder, a second run changes nothing.
\<close>

theorem seeder_noop_when_seeded:
  "((\<exists>msg. fst (get_documents ''product'' (Some 1) st) = Inl msg) \<or>
    (\<exists>ds. fst (get_documents ''product'' (Some 1) st) = Inr ds \<and> ds \<noteq> [])
      \<longrightarrow> colls (ensure_sample_products st) = colls st) \<and>
   (colls (ensure_sample_products st) ''product'' \<noteq> []
      \<longrightarrow> colls (ensure_sample_products (ensure_sample_products st))
            = colls (ensure_sample_products st))"
  by (auto simp: ensure_noop ensure_sample_products_def get_documents_def consume_def
        take_one_empty split: option.splits)

text \<open>
  A catalog that has a product, a store that cannot be reached, and the empty store
  seeded twice: three samples after the first run and the same three after the second.
\<close>

theorem seeder_twice_scenarios:
  "colls (ensure_sample_products p1_store) = colls p1_store \<and>
   colls (ensure_sample_products (empty_store\<lparr>faults := [Some ''unreachable'']\<rparr>))
     = colls empty_store \<and>
   map doc_id (colls (ensure_sample_products empty_store) ''product'') = [''0'', ''1'', ''2''] \<and>
   colls (ensure_sample_products (ensure_sample_products empty_store))
     = colls (ensure_sample_products empty_store)"
  using seeder_noop_when_seeded[of p1_store]
        seeder_noop_when_seeded[of "empty_store\<lparr>faults := [Some ''unreachable'']\<rparr>"]
        seeder_noop_when_seeded[of empty_store]
  by (simp add: ensure_sample_products_def samples_def store_eval empty_store_def p1_store_def
        digits_small)

section \<open>Diagnostics (C7)\<close>

text \<open>On a text without continuation bytes, ASCII for one, the slice is \<open>take\<close>.\<close>

lemma utf8_take_ascii: "\<forall>c\<in>set s. \<not> continuation c \<Longrightarrow> utf8_take n s = take n s"
proof (induction n arbitrary: s)
  case 0
  then show ?case by simp
next
  case (Suc n)
  show ?case
  proof (cases s)
    case Nil
    then show ?thesis by simp
  next
    case (Cons c cs)
    with Suc.prems have cs: "\<forall>c\<in>set cs. \<not> continuation c" by simp
    then have "takeWhile continuation cs = []" "dropWhile continuation cs = cs"
      by (cases cs; simp)+
    with Suc.IH[OF cs] Cons show ?thesis by simp
  qed
qed

text \<open>A two-byte character is kept or dropped whole.\<close>

lemma utf8_take_two_bytes:
  "utf8_take (Suc 0) [CHR 0xC3, CHR 0xA9, CHR ''a''] = [CHR 0xC3, CHR 0xA9]"
  by (simp add: continuation_def)

text \<open>
  C7.  The report is a value for every environment: \<open>test_database\<close> has no error
  result.  It lists at most ten collections.  Without a handle the database line says
  so; with a handle the report says whether the connection string is configured; a
  failure while reading the handle's name or while listing the collections is put into
  the database line with the first 80 characters of its text; otherwise the line reports
  a working connection and the collections are the first ten listed.
\<close>

theorem diagnostics_never_fail:
  "length (collections (test_database e)) \<le> 10 \<and>
   (db e = None \<longrightarrow>
      database (test_database e) = warning_sign @ '' Available but not initialized'') \<and>
   (\<forall>h. db e = Some h \<longrightarrow>
      database_url (test_database e) =
        Some (if set_and_nonempty (getenv e ''DATABASE_URL'')
              then check_mark @ '' Set'' else cross_mark @ '' Not Set'')) \<and>
   (\<forall>h msg. db e = Some h \<and> db_name h = Inl msg \<longrightarrow>
      database (test_database e) = cross_mark @ '' Error: '' @ utf8_take 80 msg) \<and>
   (\<forall>h nm msg. db e = Some h \<and> db_name h = Inr nm \<and> list_collection_names h = Inl msg \<longrightarrow>
      database (test_database e) = warning_sign @ '' Connected but Error: '' @ utf8_take 80 msg) \<and>
   (\<forall>h nm cs. db e = Some h \<and> db_name h = Inr nm \<and> list_collection_names h = Inr cs \<longrightarrow>
      database (test_database e) = check_mark @ '' Connected & Working'' \<and>
      collections (test_database e) = take 10 cs)"
  by (auto simp: test_database_def report_collections_def Let_def split: option.splits sum.splits)

text \<open>Twelve collections are cut to ten; a failing listing and a missing handle are reported.\<close>

theorem diagnostics_scenarios:
  "collections (test_database twelve_env) =
     [''c01'', ''c02'', ''c03'', ''c04'', ''c05'', ''c06'', ''c07'', ''c08'', ''c09'', ''c10''] \<and>
   database (test_database twelve_env) = check_mark @ '' Connected & Working'' \<and>
   database (test_database failing_env)
     = warning_sign @ '' Connected but Error: connection refused'' \<and>
   database_url (test_database failing_env) = Some (cross_mark @ '' Not Set'') \<and>
   database (test_database bare_env) = warning_sign @ '' Available but not initialized''"
  using diagnostics_never_fail[of twelve_env] diagnostics_never_fail[of failing_env]
        diagnostics_never_fail[of bare_env]
  by (simp add: twelve_env_def failing_env_def bare_env_def set_and_nonempty_def
        utf8_take_ascii continuation_def)

section \<open>The session identifier of an order (C8)\<close>

lemma list_products_orders: "colls (snd (list_products st)) ''order'' = colls st ''order''"
proof -
  have "colls (ensure_sample_products st) ''order'' = colls st ''order''"
    by (simp add: ensure_sample_products_def get_documents_def consume_def insert_samples_other
          split: option.splits)
  then show ?thesis
    by (simp add: list_products_def Let_def get_documents_def consume_def split: option.splits)
qed

lemma create_lead_orders: "colls (snd (create_lead e l st)) ''order'' = colls st ''order''"
  by (simp add: create_lead_def create_document_def consume_def Let_def split: option.splits)

lemma checkout_orders:
  "\<exists>ds. colls (snd (create_checkout_session e payload st)) ''order'' = colls st ''order'' @ ds \<and>
        (\<forall>d\<in>set ds. field d ''checkout_session_id'' = Some PNone)"
proof (cases "colls (snd (create_checkout_session e payload st)) ''order'' = colls st ''order''")
  case True
  then show ?thesis by simp
next
  case False
  from checkout_persisted[OF prod.collapse[symmetric] False] obtain amount ord where
    o: "OrderSchema (product_id (hd (items payload))) (sum_list (map quantity (items payload)))
              amount (customer_email payload) ''created'' = Inr ord"
    and c: "colls (snd (create_checkout_session e payload st)) =
              (colls st)(''order'' := colls st ''order'' @
                          [\<lparr>doc_id = digits (next_id st), doc_fields = dump_order ord\<rparr>])"
    by blast
  from o have "checkout_session_id ord = None"
    by (auto simp: OrderSchema_def split: if_splits)
  with c show ?thesis
    by (simp add: field_def dump_order_def opt_str_def)
qed

lemma serve_orders:
  "\<exists>ds. colls (serve e r st) ''order'' = colls st ''order'' @ ds \<and>
        (\<forall>d\<in>set ds. field d ''checkout_session_id'' = Some PNone)"
  by (cases r) (simp_all add: list_products_orders create_lead_orders checkout_orders)

text \<open>
  C8.  Over any run of the service, in any environments, the order collection only grows
  at its end: the orders that were there stay as they were, and every order added has
  checkout_session_id null.  No route writes the provider's session identifier into an
  order, also when the provider creates the session.
\<close>

theorem session_id_never_written:
  "\<exists>ds. colls (serve_all rs st) ''order'' = colls st ''order'' @ ds \<and>
        (\<forall>d\<in>set ds. field d ''checkout_session_id'' = Some PNone)"
proof (induction rs arbitrary: st)
  case Nil
  then show ?case by simp
next
  case (Cons er rs)
  obtain e r where er: "er = (e, r)" by (cases er)
  from serve_orders[of e r st] obtain ds1 where
    1: "colls (serve e r st) ''order'' = colls st ''order'' @ ds1"
       "\<forall>d\<in>set ds1. field d ''checkout_session_id'' = Some PNone" by blast
  from Cons.IH[of "serve e r st"] obtain ds2 where
    2: "colls (serve_all rs (serve e r st)) ''order'' = colls (serve e r st) ''order'' @ ds2"
       "\<forall>d\<in>set ds2. field d ''checkout_session_id'' = Some PNone" by blast
  from 1 2 er show ?case
    by (intro exI[of _ "ds1 @ ds2"]) auto
qed

text \<open>
  A checkout that the provider answers with a session: the reply carries the provider's
  URL, and the stored order still has no session identifier.
\<close>

theorem paid_session_scenario:
  "fst (create_checkout_session paying_env (cart [(''P1'', 1)]) p1_store)
     = Inr \<lparr>checkout_url = ''https://pay.example/session'', order_id = ''0'',
            response_note = None\<rparr> \<and>
   (\<exists>d. colls (serve_all [(paying_env, PostCheckout (cart [(''P1'', 1)]))] p1_store) ''order'' = [d] \<and>
        field d ''checkout_session_id'' = Some PNone)"
  using session_id_never_written[of "[(paying_env, PostCheckout (cart [(''P1'', 1)]))]" p1_store]
  by (simp add: store_eval checkout_eval stripe_checkout_def getenv_default_def
        p1_store_def paying_env_def bare_env_def field_def digits_small)

section \<open>Products without a price (C9)\<close>

text \<open>
  C9.  When the price_cents of the resolved product is missing, null or any other false
  value, the unit price is 0 and no error arises: the pricing loop goes on with the total
  unchanged and a line of amount 0, and the provider's line item for it has unit amount 0.
\<close>

theorem falsy_price_is_zero:
  assumes "cat (product_id it) = Some d"
    and "\<not> truthy (py_get d ''price_cents'' PNone)"
  shows "unit_price e d = Inr 0 \<and>
         price_items e cat (it # its) amt acc =
           price_items e cat its amt
             (acc @ [\<lparr>li_name = py_get d ''title'' PNone, li_amount = 0,
                       li_currency = py_get d ''currency'' (PStr ''usd''),
                       li_quantity = max 1 (quantity it)\<rparr>]) \<and>
         stripe_line_items e cat (it # its) =
           (case stripe_line_items e cat its of
              Inl err \<Rightarrow> Inl err
            | Inr rest \<Rightarrow>
                Inr (\<lparr>price_currency = py_get d ''currency'' (PStr ''usd''),
                      product_name = py_get d ''title'' PNone,
                      unit_amount = 0,
                      sli_quantity = max 1 (quantity it)\<rparr> # rest))"
  using assms by (simp add: unit_price_falsy Let_def)

text \<open>
  The six false values as price, and a cart of three of a product that has no
  price_cents at all.
\<close>

theorem unpriced_product_scenarios:
  "unit_price bare_env \<lparr>doc_id = ''F1'', doc_fields = [(''price_cents'', PNone)]\<rparr> = Inr 0 \<and>
   unit_price bare_env \<lparr>doc_id = ''F1'', doc_fields = [(''price_cents'', PBool False)]\<rparr> = Inr 0 \<and>
   unit_price bare_env \<lparr>doc_id = ''F1'', doc_fields = [(''price_cents'', PInt 0)]\<rparr> = Inr 0 \<and>
   unit_price bare_env \<lparr>doc_id = ''F1'', doc_fields = [(''price_cents'', PStr [])]\<rparr> = Inr 0 \<and>
   unit_price bare_env \<lparr>doc_id = ''F1'', doc_fields = [(''price_cents'', PList [])]\<rparr> = Inr 0 \<and>
   unit_price bare_env \<lparr>doc_id = ''F1'', doc_fields = [(''price_cents'', PDict [])]\<rparr> = Inr 0 \<and>
   price_items bare_env (catalog unpriced_store) [\<lparr>product_id = ''F1'', quantity = 3\<rparr>] 0 []
     = Inr (0, [\<lparr>li_name = PStr ''Sample vial'', li_amount = 0, li_currency = PStr ''usd'',
                 li_quantity = 3\<rparr>]) \<and>
   stripe_line_items bare_env (catalog unpriced_store) [\<lparr>product_id = ''F1'', quantity = 3\<rparr>]
     = Inr [\<lparr>price_currency = PStr ''usd'', product_name = PStr ''Sample vial'',
             unit_amount = 0, sli_quantity = 3\<rparr>]"
  using falsy_price_is_zero
          [of "catalog unpriced_store" "\<lparr>product_id = ''F1'', quantity = 3\<rparr>"
              "\<lparr>doc_id = ''F1'', doc_fields = [(''title'', PStr ''Sample vial'')]\<rparr>"
              bare_env "[]" 0 "[]"]
        falsy_price_is_zero
          [of "[''F1'' \<mapsto> \<lparr>doc_id = ''F1'', doc_fields = [(''price_cents'', PNone)]\<rparr>]"
              "\<lparr>product_id = ''F1'', quantity = 1\<rparr>"
              "\<lparr>doc_id = ''F1'', doc_fields = [(''price_cents'', PNone)]\<rparr>" bare_env "[]" 0 "[]"]
        falsy_price_is_zero
          [of "[''F1'' \<mapsto> \<lparr>doc_id = ''F1'', doc_fields = [(''price_cents'', PBool False)]\<rparr>]"
              "\<lparr>product_id = ''F1'', quantity = 1\<rparr>"
              "\<lparr>doc_id = ''F1'', doc_fields = [(''price_cents'', PBool False)]\<rparr>" bare_env "[]" 0 "[]"]
        falsy_price_is_zero
          [of "[''F1'' \<mapsto> \<lparr>doc_id = ''F1'', doc_fields = [(''price_cents'', PInt 0)]\<rparr>]"
              "\<lparr>product_id = ''F1'', quantity = 1\<rparr>"
              "\<lparr>doc_id = ''F1'', doc_fields = [(''price_cents'', PInt 0)]\<rparr>" bare_env "[]" 0 "[]"]
        falsy_price_is_zero
          [of "[''F1'' \<mapsto> \<lparr>doc_id = ''F1'', doc_fields = [(''price_cents'', PStr [])]\<rparr>]"
              "\<lparr>product_id = ''F1'', quantity = 1\<rparr>"
              "\<lparr>doc_id = ''F1'', doc_fields = [(''price_cents'', PStr [])]\<rparr>" bare_env "[]" 0 "[]"]
        falsy_price_is_zero
          [of "[''F1'' \<mapsto> \<lparr>doc_id = ''F1'', doc_fields = [(''price_cents'', PList [])]\<rparr>]"
              "\<lparr>product_id = ''F1'', quantity = 1\<rparr>"
              "\<lparr>doc_id = ''F1'', doc_fields = [(''price_cents'', PList [])]\<rparr>" bare_env "[]" 0 "[]"]
        falsy_price_is_zero
          [of "[''F1'' \<mapsto> \<lparr>doc_id = ''F1'', doc_fields = [(''price_cents'', PDict [])]\<rparr>]"
              "\<lparr>product_id = ''F1'', quantity = 1\<rparr>"
              "\<lparr>doc_id = ''F1'', doc_fields = [(''price_cents'', PDict [])]\<rparr>" bare_env "[]" 0 "[]"]
  by (simp add: catalog_def unpriced_store_def py_get_def)

section \<open>The catalog under checkout (C10)\<close>

lemma checkout_products:
  "colls (snd (create_checkout_session e payload st)) ''product'' = colls st ''product''"
proof (cases "colls (snd (create_checkout_session e payload st)) ''order'' = colls st ''order''")
  case True
  from checkout_not_persisted[OF prod.collapse[symmetric] True] show ?thesis by simp
next
  case False
  from checkout_persisted[OF prod.collapse[symmetric] False] show ?thesis by auto
qed

lemma create_lead_products: "colls (snd (create_lead e l st)) ''product'' = colls st ''product''"
  by (simp add: create_lead_def create_document_def consume_def Let_def split: option.splits)

lemma checkout_empty_catalog:
  assumes "items payload \<noteq> []" "colls st ''product'' = []" "next_fault st = None"
  shows "create_checkout_session e payload st =
     (Inl (HTTPException 404 (''Product not found: '' @ product_id (hd (items payload)))),
      consume st)"
proof -
  from assms(1) obtain it its where i: "items payload = it # its"
    by (cases "items payload") auto
  with assms(2,3) show ?thesis
    by (simp add: create_checkout_session_def get_documents_def)
qed

text \<open>The listing route is the one that seeds: on the empty store it inserts the samples.\<close>

lemma listing_seeds:
  "map doc_id (colls (serve bare_env GetProducts empty_store) ''product'') = [''0'', ''1'', ''2'']"
  by (simp add: list_products_def ensure_sample_products_def samples_def store_eval empty_store_def
        digits_small)

text \<open>
  C10.  A checkout leaves the product collection as it is, whatever its outcome, and so
  does every route other than the product listing.  In particular a checkout of a
  non-empty cart against an empty catalog that can be read is answered 404 for the first
  item, and the catalog is still empty afterwards.
\<close>

theorem checkout_leaves_catalog:
  "colls (snd (create_checkout_session e payload st)) ''product'' = colls st ''product'' \<and>
   (r \<noteq> GetProducts \<longrightarrow> colls (serve e r st) ''product'' = colls st ''product'') \<and>
   (items payload \<noteq> [] \<and> colls st ''product'' = [] \<and> next_fault st = None \<longrightarrow>
      fst (create_checkout_session e payload st) =
        Inl (HTTPException 404 (''Product not found: '' @ product_id (hd (items payload)))) \<and>
      colls (snd (create_checkout_session e payload st)) ''product'' = [])"
proof (intro conjI impI)
  show "colls (snd (create_checkout_session e payload st)) ''product'' = colls st ''product''"
    by (rule checkout_products)
next
  assume "r \<noteq> GetProducts"
  then show "colls (serve e r st) ''product'' = colls st ''product''"
    by (cases r) (simp_all add: checkout_products create_lead_products)
next
  assume a: "items payload \<noteq> [] \<and> colls st ''product'' = [] \<and> next_fault st = None"
  then show "fst (create_checkout_session e payload st) =
        Inl (HTTPException 404 (''Product not found: '' @ product_id (hd (items payload))))"
    by (simp add: checkout_empty_catalog)
  from a show "colls (snd (create_checkout_session e payload st)) ''product'' = []"
    by (simp add: checkout_products)
qed

text \<open>A checkout on the empty, never listed store.\<close>

theorem empty_catalog_checkout_scenario:
  "fst (create_checkout_session bare_env (cart [(''P1'', 1)]) empty_store) =
     Inl (HTTPException 404 ''Product not found: P1'') \<and>
   colls (snd (create_checkout_session bare_env (cart [(''P1'', 1)]) empty_store)) ''product'' = [] \<and>
   colls (serve bare_env (PostCheckout (cart [(''P1'', 1)])) empty_store) ''product'' = []"
  using checkout_leaves_catalog
          [of bare_env "cart [(''P1'', 1)]" empty_store "PostCheckout (cart [(''P1'', 1)])"]
  by (simp add: cart_def empty_store_def next_fault_def)

end
